theory Spec2Isabelle
  imports Main "HOL-Library.Word"
begin

section \<open>The key matrix prototype: data model (keymatrix/kmx.h)\<close>

text \<open>
  \<^verbatim>\<open>typedef enum kmx_keystate{DOWN, UP};\<close>
  The enumeration constants have the values \<open>DOWN = 0\<close> and \<open>UP = 1\<close>.
\<close>

datatype kmx_keystate = DOWN | UP

fun keystate_value :: "kmx_keystate \<Rightarrow> nat" where
  "keystate_value DOWN = 0"
| "keystate_value UP = 1"

text \<open>
  \<^verbatim>\<open>typedef uint_fast8_t kmx_int;\<close>
  An unsigned type of at least eight bits. The program only stores the constants 2 and 4
  in it and prints them; it does no arithmetic on it, so the eight-bit reading loses
  nothing.
\<close>

type_synonym kmx_int = "8 word"

text \<open>\<^verbatim>\<open>struct kmx_coord { kmx_int outIx; kmx_int inIx; }\<close>\<close>

record kmx_coord =
  outIx :: kmx_int
  inIx :: kmx_int

text \<open>\<^verbatim>\<open>struct kmx_key { struct kmx_coord coord; enum kmx_keystate state; }\<close>\<close>

record kmx_key =
  coord :: kmx_coord
  state :: kmx_keystate

text \<open>
  \<^verbatim>\<open>typedef void (*kmx_key_reporter)(kmx_key);\<close>
  A reporter returns nothing; all it can do is change the world it runs in (print, queue
  the key, ...). It is modelled as a transformer of that world, of any type \<open>'w\<close>.
\<close>

type_synonym 'w kmx_key_reporter = "kmx_key \<Rightarrow> 'w \<Rightarrow> 'w"

section \<open>The row scan (keymatrix/kmx.c)\<close>

text \<open>
  \<^verbatim>\<open>
  void kmx_nextRow(kmx_key_reporter reporter) {
      kmx_key k;
      k.coord.inIx = 4;
      k.coord.outIx = 2;
      k.state = DOWN;
      (*reporter)(k);
  }
  \<close>
  The three assignments set every field of the local \<open>k\<close>; the function then makes its
  one call through the pointer. It has no other parameter, reads no global and no
  hardware register, and keeps no static data.
\<close>

definition kmx_nextRow :: "'w kmx_key_reporter \<Rightarrow> 'w \<Rightarrow> 'w" where
  "kmx_nextRow reporter w =
     (let k = \<lparr>coord = \<lparr>outIx = 2, inIx = 4\<rparr>, state = DOWN\<rparr>
      in reporter k w)"

section \<open>The program (main.c)\<close>

text \<open>Decimal digits of a natural number, as \<^verbatim>\<open>printf\<close>'s \<^verbatim>\<open>%i\<close> prints a value that is not negative.\<close>

fun dec :: "nat \<Rightarrow> string" where
  "dec n = (if n < 10 then [char_of (48 + n)] else dec (n div 10) @ [char_of (48 + n mod 10)])"

text \<open>
  \<^verbatim>\<open>
  void reportKey(kmx_key k) {
      printf("Reporting Key: %ix%i %i\n", k.coord.inIx, k.coord.outIx, k.state);
  }
  \<close>
  The world of this reporter is the text written to standard output so far.
\<close>

definition reportKey :: "string kmx_key_reporter" where
  "reportKey k out =
     out @ ''Reporting Key: '' @ dec (unat (inIx (coord k))) @ ''x'' @ dec (unat (outIx (coord k)))
         @ '' '' @ dec (keystate_value (state k)) @ [CHR 0x0A]"

text \<open>
  \<^verbatim>\<open>int main() { kmx_nextRow(&reportKey); return 0; }\<close>
  The result is the output and the exit status.
\<close>

definition main_prog :: "string \<times> int" where
  "main_prog = (kmx_nextRow reportKey [], 0)"

section \<open>Observing the reporter\<close>

text \<open>
  To speak about how often and with which argument a reporter is invoked, the world is
  paired with the list of the keys the reporter has been called with, oldest first.
  \<open>traced reporter\<close> is \<open>reporter\<close> with each call written to that list.
\<close>

record 'w observed =
  calls :: "kmx_key list"
  world :: 'w

definition traced :: "'w kmx_key_reporter \<Rightarrow> ('w observed) kmx_key_reporter" where
  "traced reporter k p = \<lparr>calls = calls p @ [k], world = reporter k (world p)\<rparr>"

text \<open>The reporter invocations of \<open>n\<close> consecutive calls of \<open>kmx_nextRow\<close>, started in world \<open>w\<close>.\<close>

definition invocations :: "nat \<Rightarrow> 'w kmx_key_reporter \<Rightarrow> 'w \<Rightarrow> kmx_key list" where
  "invocations n reporter w =
     calls ((kmx_nextRow (traced reporter) ^^ n) \<lparr>calls = [], world = w\<rparr>)"

section \<open>Scan passes over the switch matrix\<close>

text \<open>
  What the matrix shows during one pass: for every cell either no sample (\<open>None\<close>), or
  whether its circuit reads closed. \<open>kmx_nextRow\<close> has no way to receive it (no parameter,
  no global, no port read), so in the model it is part of the world the call runs in.
\<close>

type_synonym raw_sample = "kmx_coord \<Rightarrow> bool option"

definition all_closed :: raw_sample where
  "all_closed c = Some True"

definition all_open :: raw_sample where
  "all_open c = Some False"

definition all_missing :: raw_sample where
  "all_missing c = None"

text \<open>Only the cell \<open>(0, 0)\<close> has a sample, and it reads closed.\<close>

definition only_first_cell :: raw_sample where
  "only_first_cell c = (if c = \<lparr>outIx = 0, inIx = 0\<rparr> then Some True else None)"

text \<open>A reporter that leaves the matrix alone; \<open>traced keep\<close> only writes the call down.\<close>

definition keep :: "raw_sample kmx_key_reporter" where
  "keep k h = h"

text \<open>
  One step of scanning: the matrix shows \<open>s\<close>, and the row scan is called once. A sweep
  over a matrix with several out lines is as many such steps with the same \<open>s\<close>; with one
  out line a step is a whole pass.
\<close>

definition scan_pass :: "raw_sample \<Rightarrow> raw_sample observed \<Rightarrow> raw_sample observed" where
  "scan_pass s p = kmx_nextRow (traced keep) (p\<lparr>world := s\<rparr>)"

fun scan_passes :: "raw_sample list \<Rightarrow> raw_sample observed \<Rightarrow> raw_sample observed" where
  "scan_passes [] p = p"
| "scan_passes (s # ss) p = scan_passes ss (scan_pass s p)"

text \<open>The keys reported during the passes \<open>ss\<close> (those reported before are dropped).\<close>

definition emitted :: "raw_sample list \<Rightarrow> raw_sample observed \<Rightarrow> kmx_key list" where
  "emitted ss p = drop (length (calls p)) (calls (scan_passes ss p))"

text \<open>Nothing reported yet, every switch open.\<close>

definition power_on :: "raw_sample observed" where
  "power_on = \<lparr>calls = [], world = all_open\<rparr>"

section \<open>The vocabulary of the specification, read off the reports\<close>

text \<open>The key state a raw reading proposes: \<open>DOWN\<close> if the circuit reads closed, \<open>UP\<close> otherwise.\<close>

definition proposed :: "bool \<Rightarrow> kmx_keystate" where
  "proposed closed = (if closed then DOWN else UP)"

text \<open>The events of one cell among a list of reported keys.\<close>

definition events_for :: "kmx_coord \<Rightarrow> kmx_key list \<Rightarrow> kmx_key list" where
  "events_for c evs = filter (\<lambda>k. coord k = c) evs"

text \<open>
  The source declares the type \<^verbatim>\<open>kmx_matrix\<close> ("the matrix holding the key states for
  the switches") but no object of it: the scan keeps no state of any cell. The confirmed
  state of a cell is therefore what the reports say: the state last reported for the cell,
  and \<open>UP\<close> for a cell never reported (the specification's state at engine start).
\<close>

definition confirmedState :: "kmx_key list \<Rightarrow> kmx_coord \<Rightarrow> kmx_keystate" where
  "confirmedState evs c = (if events_for c evs = [] then UP else state (last (events_for c evs)))"

text \<open>Every pass of \<open>ss\<close> samples cell \<open>c\<close> with the same reading \<open>b\<close>.\<close>

definition holds_constant :: "kmx_coord \<Rightarrow> bool \<Rightarrow> raw_sample list \<Rightarrow> bool" where
  "holds_constant c b ss = list_all (\<lambda>s. s c = Some b) ss"

text \<open>Cell \<open>c\<close> is sampled in every pass, and its reading differs from pass to pass.\<close>

fun toggles :: "kmx_coord \<Rightarrow> raw_sample list \<Rightarrow> bool" where
  "toggles c [] = True"
| "toggles c [s] = (s c \<noteq> None)"
| "toggles c (s # t # ss) = (s c \<noteq> None \<and> s c \<noteq> t c \<and> toggles c (t # ss))"

section \<open>Facts about the source functions\<close>

lemma kmx_nextRow_traced:
  "kmx_nextRow (traced reporter) p =
     \<lparr>calls = calls p @ [\<lparr>coord = \<lparr>outIx = 2, inIx = 4\<rparr>, state = DOWN\<rparr>],
      world = reporter \<lparr>coord = \<lparr>outIx = 2, inIx = 4\<rparr>, state = DOWN\<rparr> (world p)\<rparr>"
  by (simp add: kmx_nextRow_def traced_def Let_def)

lemma calls_funpow_nextRow:
  "calls ((kmx_nextRow (traced reporter) ^^ n) p) =
     calls p @ replicate n \<lparr>coord = \<lparr>outIx = 2, inIx = 4\<rparr>, state = DOWN\<rparr>"
proof (induction n)
  case 0
  show ?case by simp
next
  case (Suc n)
  have "calls ((kmx_nextRow (traced reporter) ^^ Suc n) p) =
        calls ((kmx_nextRow (traced reporter) ^^ n) p) @ [\<lparr>coord = \<lparr>outIx = 2, inIx = 4\<rparr>, state = DOWN\<rparr>]"
    by (simp add: kmx_nextRow_traced)
  also have "\<dots> = calls p @ replicate (Suc n) \<lparr>coord = \<lparr>outIx = 2, inIx = 4\<rparr>, state = DOWN\<rparr>"
    by (simp add: Suc.IH replicate_append_same)
  finally show ?case .
qed

lemma invocations_eq:
  "invocations n reporter w = replicate n \<lparr>coord = \<lparr>outIx = 2, inIx = 4\<rparr>, state = DOWN\<rparr>"
  by (simp add: invocations_def calls_funpow_nextRow)

lemma calls_scan_pass:
  "calls (scan_pass s p) = calls p @ [\<lparr>coord = \<lparr>outIx = 2, inIx = 4\<rparr>, state = DOWN\<rparr>]"
  by (simp add: scan_pass_def kmx_nextRow_traced)

lemma world_scan_pass: "world (scan_pass s p) = s"
  by (simp add: scan_pass_def kmx_nextRow_traced keep_def)

lemma calls_scan_passes:
  "calls (scan_passes ss p) =
     calls p @ replicate (length ss) \<lparr>coord = \<lparr>outIx = 2, inIx = 4\<rparr>, state = DOWN\<rparr>"
proof (induction ss arbitrary: p)
  case Nil
  show ?case by simp
next
  case (Cons s ss)
  show ?case
    by (simp add: Cons.IH calls_scan_pass replicate_app_Cons_same)
qed

lemma emitted_eq:
  "emitted ss p = replicate (length ss) \<lparr>coord = \<lparr>outIx = 2, inIx = 4\<rparr>, state = DOWN\<rparr>"
  by (simp add: emitted_def calls_scan_passes)

lemma events_for_fixed:
  "events_for c (replicate n \<lparr>coord = \<lparr>outIx = 2, inIx = 4\<rparr>, state = DOWN\<rparr>) =
     (if c = \<lparr>outIx = 2, inIx = 4\<rparr>
      then replicate n \<lparr>coord = \<lparr>outIx = 2, inIx = 4\<rparr>, state = DOWN\<rparr> else [])"
  by (auto simp: events_for_def)

lemma main_prog_output: "main_prog = (''Reporting Key: 4x2 0'' @ [CHR 0x0A], 0)"
  by code_simp

section \<open>The row scan as it is written\<close>

text \<open>
  C8. For every reporter, each call of \<open>kmx_nextRow\<close> invokes the reporter exactly once,
  and the argument is always the key with \<open>coord.outIx = 2\<close>, \<open>coord.inIx = 4\<close> and
  \<open>state = DOWN\<close>: a call is the same as one call of the reporter on that key, in every
  world (whatever the hardware shows and whatever came before), and \<open>n\<close> calls invoke it
  \<open>n\<close> times, each time with that key.
\<close>

theorem kmx_nextRow_reports_fixed_key:
  "kmx_nextRow reporter w = reporter \<lparr>coord = \<lparr>outIx = 2, inIx = 4\<rparr>, state = DOWN\<rparr> w
   \<and> calls (kmx_nextRow (traced reporter) p) =
       calls p @ [\<lparr>coord = \<lparr>outIx = 2, inIx = 4\<rparr>, state = DOWN\<rparr>]
   \<and> invocations n reporter w = replicate n \<lparr>coord = \<lparr>outIx = 2, inIx = 4\<rparr>, state = DOWN\<rparr>"
  by (simp add: kmx_nextRow_def traced_def invocations_eq Let_def)

text \<open>
  C9. Across any sequence of \<open>kmx_nextRow\<close> calls with any reporter, the reporter is
  never invoked with a key whose state is \<open>UP\<close>: no key release is ever reported, neither
  by \<open>n\<close> calls in any world nor by passes over any samples.
\<close>

theorem kmx_nextRow_never_reports_UP:
  "UP \<notin> set (map state (invocations n reporter w))
   \<and> UP \<notin> set (map state (emitted ss p))"
  by (simp add: invocations_eq emitted_eq)

text \<open>
  C10. The reporter invocations do not depend on the hardware: the same number of calls
  with the same reporter gives the same invocations from any two worlds \<open>w1\<close> and \<open>w2\<close>
  (a world holds everything a C program can read, the state of the matrix pins included),
  and two runs of passes of equal length (the two components of the list of pairs
  \<open>sp\<close>) report the same keys whatever samples and whatever matrix \<open>h\<close> they meet.
\<close>

theorem reports_independent_of_hardware:
  "invocations n reporter w1 = invocations n reporter w2
   \<and> emitted (map fst sp) p = emitted (map snd sp) (p\<lparr>world := h\<rparr>)"
  by (simp add: invocations_eq emitted_eq)

section \<open>The properties of the specification, evaluated on the row scan\<close>

text \<open>
  The comments of the source say that \<open>kmx_nextRow\<close> "reads the next row of switches,
  reporting state changes to the given reporter" (kmx.c line 3, kmx.h line 44). Its body
  reads nothing and reports one hard-coded key on every call. Each theorem of this section
  evaluates the row scan at an input where that one defect breaks a property the
  specification states.
\<close>


text \<open>
  C1 (debounce convergence) fails. Cell \<open>(2, 4)\<close> reads closed in two steps in a row,
  threshold \<open>T = 2\<close>, and its confirmed state is \<open>UP\<close> before: exactly one event is due
  for the cell; the row scan emits two, one per call, the second for a cell that is already
  confirmed \<open>DOWN\<close>.
\<close>

theorem constant_reading_reported_twice:
  "(2::nat) \<le> length [all_closed, all_closed]
   \<and> holds_constant \<lparr>outIx = 2, inIx = 4\<rparr> True [all_closed, all_closed]
   \<and> confirmedState (calls power_on) \<lparr>outIx = 2, inIx = 4\<rparr> \<noteq> proposed True
   \<and> length (events_for \<lparr>outIx = 2, inIx = 4\<rparr> (emitted [all_closed, all_closed] power_on)) = 2
   \<and> \<not> (length (events_for \<lparr>outIx = 2, inIx = 4\<rparr> (emitted [all_closed, all_closed] power_on)) = 1
         \<and> confirmedState (calls (scan_passes [all_closed, all_closed] power_on)) \<lparr>outIx = 2, inIx = 4\<rparr>
             = proposed True)"
  by (simp add: holds_constant_def all_closed_def confirmedState_def power_on_def proposed_def
      emitted_eq events_for_fixed events_for_def)

text \<open>
  C2 fails on the second of two calls. After one pass cell \<open>(2, 4)\<close> is confirmed
  \<open>DOWN\<close>; the next call invokes the reporter for that cell again, with \<open>DOWN\<close>, and the
  confirmed state of the cell is \<open>DOWN\<close> as before: the reporter is invoked for a cell whose
  state did not change. The comments of the source say that \<open>kmx_nextRow\<close> reports state
  changes.
\<close>

theorem nextRow_reports_unchanged_cell:
  "confirmedState (calls (scan_pass all_closed power_on)) \<lparr>outIx = 2, inIx = 4\<rparr> = DOWN
   \<and> emitted [all_closed] (scan_pass all_closed power_on) =
       [\<lparr>coord = \<lparr>outIx = 2, inIx = 4\<rparr>, state = DOWN\<rparr>]
   \<and> confirmedState (calls (scan_pass all_closed (scan_pass all_closed power_on))) \<lparr>outIx = 2, inIx = 4\<rparr> = DOWN"
  by (simp add: emitted_eq events_for_def confirmedState_def power_on_def calls_scan_pass)

text \<open>
  C3 (bounce rejection) fails. Cell \<open>(2, 4)\<close> reads closed, then open (a bounce; no
  reading repeats, so no threshold \<open>T \<ge> 2\<close> is reached): no event is due and the confirmed
  state is to stay \<open>UP\<close>; the row scan emits two \<open>DOWN\<close> events for the cell, the second
  while the cell reads open, and its confirmed state goes from \<open>UP\<close> to \<open>DOWN\<close>.
\<close>

theorem bouncing_cell_reported:
  "toggles \<lparr>outIx = 2, inIx = 4\<rparr> [all_closed, all_open]
   \<and> events_for \<lparr>outIx = 2, inIx = 4\<rparr> (emitted [all_closed, all_open] power_on) =
       [\<lparr>coord = \<lparr>outIx = 2, inIx = 4\<rparr>, state = DOWN\<rparr>, \<lparr>coord = \<lparr>outIx = 2, inIx = 4\<rparr>, state = DOWN\<rparr>]
   \<and> confirmedState (calls power_on) \<lparr>outIx = 2, inIx = 4\<rparr> = UP
   \<and> confirmedState (calls (scan_passes [all_closed, all_open] power_on)) \<lparr>outIx = 2, inIx = 4\<rparr> = DOWN"
  by (simp add: all_closed_def all_open_def emitted_eq events_for_def confirmedState_def
      power_on_def calls_scan_pass)

text \<open>
  C4 fails on a settled cell. After one pass cell \<open>(2, 4)\<close> is confirmed \<open>DOWN\<close>, which
  is the state its steady reading (closed) proposes; three further passes with the same
  reading emit three more \<open>DOWN\<close> events for the cell, where the claim allows none.
\<close>

theorem settled_cell_reported_again:
  "confirmedState (calls (scan_pass all_closed power_on)) \<lparr>outIx = 2, inIx = 4\<rparr> = proposed True
   \<and> holds_constant \<lparr>outIx = 2, inIx = 4\<rparr> True [all_closed, all_closed, all_closed]
   \<and> events_for \<lparr>outIx = 2, inIx = 4\<rparr>
        (emitted [all_closed, all_closed, all_closed] (scan_pass all_closed power_on)) =
       [\<lparr>coord = \<lparr>outIx = 2, inIx = 4\<rparr>, state = DOWN\<rparr>, \<lparr>coord = \<lparr>outIx = 2, inIx = 4\<rparr>, state = DOWN\<rparr>,
        \<lparr>coord = \<lparr>outIx = 2, inIx = 4\<rparr>, state = DOWN\<rparr>]"
  by (simp add: emitted_eq events_for_def confirmedState_def power_on_def calls_scan_pass
      proposed_def holds_constant_def all_closed_def)

text \<open>
  C5 (coordinate fidelity) fails. In a step where only cell \<open>(0, 0)\<close> has a sample, which
  reads closed, the one key reported carries the coordinate \<open>(2, 4)\<close>, a cell that was not
  sampled, and no key is reported for the cell that was.
\<close>

theorem unsampled_cell_reported:
  "only_first_cell \<lparr>outIx = 0, inIx = 0\<rparr> = Some True
   \<and> only_first_cell \<lparr>outIx = 2, inIx = 4\<rparr> = None
   \<and> map coord (emitted [only_first_cell] power_on) = [\<lparr>outIx = 2, inIx = 4\<rparr>]
   \<and> events_for \<lparr>outIx = 0, inIx = 0\<rparr> (emitted [only_first_cell] power_on) = []"
  by (simp add: only_first_cell_def emitted_eq events_for_def)

text \<open>
  C6 (missing-sample resilience) fails. In a step with no sample for any cell, so none for
  cell \<open>(2, 4)\<close>, an event is emitted for cell \<open>(2, 4)\<close> and its confirmed state goes
  from \<open>UP\<close> to \<open>DOWN\<close>.
\<close>

theorem missing_sample_reported:
  "all_missing \<lparr>outIx = 2, inIx = 4\<rparr> = None
   \<and> events_for \<lparr>outIx = 2, inIx = 4\<rparr> (emitted [all_missing] power_on) =
       [\<lparr>coord = \<lparr>outIx = 2, inIx = 4\<rparr>, state = DOWN\<rparr>]
   \<and> confirmedState (calls power_on) \<lparr>outIx = 2, inIx = 4\<rparr> = UP
   \<and> confirmedState (calls (scan_pass all_missing power_on)) \<lparr>outIx = 2, inIx = 4\<rparr> = DOWN"
  by (simp add: all_missing_def emitted_eq events_for_def confirmedState_def power_on_def
      calls_scan_pass)

text \<open>
  C7 (full-scan sequencing) fails in its scenario. The source has no full scan; its one
  scanning operation is \<open>kmx_nextRow\<close>, documented as reading the next row on each call.
  A full scan of a matrix of two by two is two row scans. With every switch closed the two
  calls report two keys, both \<open>(2, 4)\<close> \<open>DOWN\<close>, not the four keys
  \<open>(0,0), (0,1), (1,0), (1,1)\<close>.
\<close>

theorem two_row_scans_report_one_cell:
  "invocations 2 keep all_closed = [\<lparr>coord = \<lparr>outIx = 2, inIx = 4\<rparr>, state = DOWN\<rparr>, \<lparr>coord = \<lparr>outIx = 2, inIx = 4\<rparr>, state = DOWN\<rparr>]
   \<and> invocations 2 keep all_closed \<noteq>
     [\<lparr>coord = \<lparr>outIx = 0, inIx = 0\<rparr>, state = DOWN\<rparr>, \<lparr>coord = \<lparr>outIx = 0, inIx = 1\<rparr>, state = DOWN\<rparr>,
      \<lparr>coord = \<lparr>outIx = 1, inIx = 0\<rparr>, state = DOWN\<rparr>, \<lparr>coord = \<lparr>outIx = 1, inIx = 1\<rparr>, state = DOWN\<rparr>]"
  by (simp add: invocations_eq numeral_2_eq_2)

end
